theory Spec2Isabelle
  imports Complex_Main
begin

section \<open>JavaScript values\<close>

text \<open>
  The values that flow through the configuration module and the completion service.
  A number is modelled by its real value, with NaN apart; the two zeros of JavaScript
  are one value here (both are falsy). Objects and arrays are trees: a list of
  properties in the order of the object literal, and a list of elements.
\<close>

datatype jsval =
    JUndefined
  | JNull
  | JBool bool
  | JNum real
  | JNaN
  | JStr string
  | JArr "jsval list"
  | JObj "(string \<times> jsval) list"

text \<open>ToBoolean: the falsy values are undefined, null, false, 0, NaN and the empty string.\<close>

fun truthy :: "jsval \<Rightarrow> bool" where
  "truthy JUndefined = False"
| "truthy JNull = False"
| "truthy (JBool b) = b"
| "truthy (JNum x) = (x \<noteq> 0)"
| "truthy JNaN = False"
| "truthy (JStr s) = (s \<noteq> [])"
| "truthy (JArr xs) = True"
| "truthy (JObj kvs) = True"

text \<open>The operator \<^verbatim>\<open>a || b\<close>: the left operand when it is truthy, the right one otherwise.\<close>

definition js_or :: "jsval \<Rightarrow> jsval \<Rightarrow> jsval" where
  "js_or a b = (if truthy a then a else b)"

text \<open>
  Reading a property of a plain object whose own properties are given by a map:
  an absent key reads as undefined.
\<close>

definition get_property :: "(string \<rightharpoonup> jsval) \<Rightarrow> string \<Rightarrow> jsval" where
  "get_property obj k = (case obj k of None \<Rightarrow> JUndefined | Some v \<Rightarrow> v)"

text \<open>Values that a \<^verbatim>\<open>throw\<close> can carry: the errors the code builds itself, a TypeError of
  the runtime, and whatever the upstream client raised.\<close>

datatype 'e thrown =
    Error string
  | TypeError
  | Upstream 'e

text \<open>\<^verbatim>\<open>Array.prototype.join\<close> on an array of strings.\<close>

fun join :: "string \<Rightarrow> string list \<Rightarrow> string" where
  "join sep [] = []"
| "join sep [x] = x"
| "join sep (x # y # ys) = x @ sep @ join sep (y # ys)"

section \<open>The configuration module (config/index.js)\<close>

text \<open>
  \<^verbatim>\<open>process.env\<close> after \<^verbatim>\<open>dotenv.config()\<close>: a map from variable names to strings.
  Reading a variable that is not set gives undefined.
\<close>

type_synonym process_env = "string \<rightharpoonup> string"

definition env_get :: "process_env \<Rightarrow> string \<Rightarrow> jsval" where
  "env_get env k = (case env k of None \<Rightarrow> JUndefined | Some v \<Rightarrow> JStr v)"

record openai_config =
  apiKey :: jsval

record cors_config =
  origin :: jsval

record config_record =
  port :: jsval
  nodeEnv :: jsval
  openai :: openai_config
  cors :: cors_config

text \<open>The object literal \<^verbatim>\<open>config\<close>, built once from the environment when the module loads.\<close>

definition config :: "process_env \<Rightarrow> config_record" where
  "config env =
     \<lparr> port = js_or (env_get env ''PORT'') (JNum 3000),
       nodeEnv = js_or (env_get env ''NODE_ENV'') (JStr ''development''),
       openai = \<lparr> apiKey = env_get env ''OPENAI_API_KEY'' \<rparr>,
       cors = \<lparr> origin = js_or (env_get env ''CORS_ORIGIN'') (JStr ''http://localhost:5173'') \<rparr> \<rparr>"

definition requiredVars :: "string list" where
  "requiredVars = [''OPENAI_API_KEY'']"

text \<open>\<^verbatim>\<open>validateConfig\<close>: throws when a required variable is missing, returns nothing otherwise.\<close>

definition validateConfig :: "process_env \<Rightarrow> 'e thrown + unit" where
  "validateConfig env =
     (let missingVars = filter (\<lambda>varName. \<not> truthy (env_get env varName)) requiredVars
      in if length missingVars > 0
         then Inl (Error (''Missing required environment variables: '' @ join '', '' missingVars))
         else Inr ())"

section \<open>The completion service (class OpenAIService)\<close>

text \<open>
  The client handle made by \<^verbatim>\<open>new OpenAI({apiKey: ...})\<close> and the service object holding it.
  The field \<^verbatim>\<open>this.openai\<close> is named \<open>openai_client\<close> here, since \<open>openai\<close> is already the
  field of the configuration.
\<close>

record OpenAI =
  client_apiKey :: jsval

record OpenAIService =
  openai_client :: OpenAI
  model :: string

definition constructor :: "config_record \<Rightarrow> OpenAIService" where
  "constructor c =
     \<lparr> openai_client = \<lparr> client_apiKey = apiKey (openai c) \<rparr>,
       model = ''gpt-4o-mini'' \<rparr>"

text \<open>
  What the upstream call \<^verbatim>\<open>openai.chat.completions.create\<close> gives back: a completion object
  with its list of choices, or a stream of fragments. The call itself is a parameter of the
  model: from the request object to the error it raises or the response it resolves to.
\<close>

record chat_completion_message =
  content :: jsval

record choice =
  message :: chat_completion_message

datatype response =
    Completion "choice list"
  | Stream "string list"

type_synonym 'e create = "jsval \<Rightarrow> 'e + response"

text \<open>
  The expression \<^verbatim>\<open>completion.choices[0].message.content\<close>. A stream has no \<^verbatim>\<open>choices\<close>, and
  an empty list of choices has no element 0: reading a property of undefined is a TypeError.
\<close>

fun choices_0_message_content :: "response \<Rightarrow> 'e thrown + jsval" where
  "choices_0_message_content (Completion []) = Inl TypeError"
| "choices_0_message_content (Completion (c # cs)) = Inr (content (message c))"
| "choices_0_message_content (Stream s) = Inl TypeError"

text \<open>
  The state a call runs in: the exported service object, the configuration object, the
  requests handed to the upstream call so far, and the lines written by \<^verbatim>\<open>console.error\<close>.
\<close>

record 'e world =
  service :: OpenAIService
  cfg :: config_record
  sent :: "jsval list"
  console :: "(string \<times> 'e thrown) list"

definition console_error :: "string \<Rightarrow> 'e thrown \<Rightarrow> 'e world \<Rightarrow> 'e world" where
  "console_error label err w = w\<lparr> console := console w @ [(label, err)] \<rparr>"

text \<open>Handing a request to the upstream call and awaiting it.\<close>

definition await_create :: "'e create \<Rightarrow> jsval \<Rightarrow> 'e world \<Rightarrow> ('e thrown + response) \<times> 'e world" where
  "await_create create request w =
     ((case create request of Inl e \<Rightarrow> Inl (Upstream e) | Inr r \<Rightarrow> Inr r),
      w\<lparr> sent := sent w @ [request] \<rparr>)"

text \<open>\<^verbatim>\<open>generateText(prompt, options = {})\<close>; an omitted \<open>options\<close> is \<open>None\<close>.\<close>

definition generateText ::
  "'e create \<Rightarrow> string \<Rightarrow> (string \<rightharpoonup> jsval) option \<Rightarrow> 'e world \<Rightarrow> ('e thrown + jsval) \<times> 'e world" where
  "generateText create prompt options_arg w =
     (let options = (case options_arg of None \<Rightarrow> Map.empty | Some opts \<Rightarrow> opts);
          request = JObj
            [ (''model'', js_or (get_property options ''model'') (JStr (model (service w)))),
              (''messages'', JArr [JObj [(''role'', JStr ''user''), (''content'', JStr prompt)]]),
              (''max_tokens'', js_or (get_property options ''maxTokens'') (JNum 1000)),
              (''temperature'', js_or (get_property options ''temperature'') (JNum 0.7)) ]
      in case await_create create request w of
           (Inl error, w1) \<Rightarrow>
             (Inl (Error ''Failed to generate text response''),
              console_error ''Error generating text with OpenAI:'' error w1)
         | (Inr completion, w1) \<Rightarrow>
             (case choices_0_message_content completion of
                Inl error \<Rightarrow>
                  (Inl (Error ''Failed to generate text response''),
                   console_error ''Error generating text with OpenAI:'' error w1)
              | Inr text \<Rightarrow> (Inr text, w1)))"

text \<open>\<^verbatim>\<open>generateTextStream(prompt)\<close>: returns what the upstream call resolved to.\<close>

definition generateTextStream ::
  "'e create \<Rightarrow> string \<Rightarrow> 'e world \<Rightarrow> ('e thrown + response) \<times> 'e world" where
  "generateTextStream create prompt w =
     (let request = JObj
            [ (''model'', JStr (model (service w))),
              (''messages'', JArr [JObj [(''role'', JStr ''user''), (''content'', JStr prompt)]]),
              (''stream'', JBool True) ]
      in case await_create create request w of
           (Inl error, w1) \<Rightarrow>
             (Inl (Error ''Failed to generate streaming response''),
              console_error ''Error generating streaming text with OpenAI:'' error w1)
         | (Inr stream, w1) \<Rightarrow> (Inr stream, w1))"

text \<open>\<^verbatim>\<open>chat(history = [], message)\<close>; an omitted or undefined \<open>history\<close> is \<open>None\<close>.\<close>

definition chat ::
  "'e create \<Rightarrow> jsval list option \<Rightarrow> string \<Rightarrow> 'e world \<Rightarrow> ('e thrown + jsval) \<times> 'e world" where
  "chat create history_arg msg w =
     (let history = (case history_arg of None \<Rightarrow> [] | Some h \<Rightarrow> h);
          messages = history @ [JObj [(''role'', JStr ''user''), (''content'', JStr msg)]];
          request = JObj
            [ (''model'', JStr (model (service w))),
              (''messages'', JArr messages),
              (''max_tokens'', JNum 1000) ]
      in case await_create create request w of
           (Inl error, w1) \<Rightarrow>
             (Inl (Error ''Failed to process chat message''),
              console_error ''Error in chat with OpenAI:'' error w1)
         | (Inr completion, w1) \<Rightarrow>
             (case choices_0_message_content completion of
                Inl error \<Rightarrow>
                  (Inl (Error ''Failed to process chat message''),
                   console_error ''Error in chat with OpenAI:'' error w1)
              | Inr text \<Rightarrow> (Inr text, w1)))"

text \<open>
  A template literal turns the value of \<^verbatim>\<open>JSON.stringify(...)\<close> into text: the serialized
  string itself, or the word undefined when there is nothing to serialize.
\<close>

definition interpolate :: "string option \<Rightarrow> string" where
  "interpolate v = (case v of None \<Rightarrow> ''undefined'' | Some s \<Rightarrow> s)"

text \<open>
  \<^verbatim>\<open>analyzeTimetable(timetableData, analysisType = 'general')\<close>. The timetable is an opaque
  value; \<^verbatim>\<open>JSON.stringify\<close> belongs to the runtime and is a parameter: it gives the
  serialized text, or undefined (\<open>None\<close>), or it throws.
\<close>

definition analyzeTimetable ::
  "('d \<Rightarrow> 'e thrown + string option) \<Rightarrow> 'e create \<Rightarrow> 'd \<Rightarrow> string option \<Rightarrow> 'e world
     \<Rightarrow> ('e thrown + jsval) \<times> 'e world" where
  "analyzeTimetable JSON_stringify create timetableData analysisType_arg w =
     (let analysisType = (case analysisType_arg of None \<Rightarrow> ''general'' | Some a \<Rightarrow> a);
          template =
            (if analysisType = ''conflicts'' then
               ''Analyze the following timetable data for scheduling conflicts and provide recommendations: ''
             else if analysisType = ''optimization'' then
               ''Suggest optimizations for the following timetable to improve efficiency: ''
             else if analysisType = ''load'' then
               ''Analyze the workload distribution in this timetable and suggest improvements: ''
             else
               ''Provide a general analysis of this timetable data: '')
      in case JSON_stringify timetableData of
           Inl error \<Rightarrow>
             (Inl (Error ''Failed to analyze timetable data''),
              console_error ''Error analyzing timetable:'' error w)
         | Inr serialized \<Rightarrow>
             (case generateText create (template @ interpolate serialized) None w of
                (Inl error, w1) \<Rightarrow>
                  (Inl (Error ''Failed to analyze timetable data''),
                   console_error ''Error analyzing timetable:'' error w1)
              | (Inr text, w1) \<Rightarrow> (Inr text, w1)))"

text \<open>Loading the two modules: the configuration is read, then the one service object is made.\<close>

definition module_load :: "process_env \<Rightarrow> 'e world" where
  "module_load env =
     \<lparr> service = constructor (config env), cfg = config env, sent = [], console = [] \<rparr>"

section \<open>Vocabulary of the properties\<close>

text \<open>The message object \<^verbatim>\<open>{ role: 'user', content: text }\<close>.\<close>

definition user_message :: "string \<Rightarrow> jsval" where
  "user_message text = JObj [(''role'', JStr ''user''), (''content'', JStr text)]"

text \<open>The own properties of an object value, in order; other values have none here.\<close>

definition properties :: "jsval \<Rightarrow> (string \<times> jsval) list" where
  "properties v = (case v of JObj kvs \<Rightarrow> kvs | _ \<Rightarrow> [])"

text \<open>
  The request of a single-turn generation with no option overrides: model \<open>m\<close>, one user
  message, 1000 tokens, temperature 0.7.
\<close>

definition default_request :: "string \<Rightarrow> string \<Rightarrow> jsval" where
  "default_request m prompt =
     JObj [ (''model'', JStr m),
            (''messages'', JArr [user_message prompt]),
            (''max_tokens'', JNum 1000),
            (''temperature'', JNum 0.7) ]"

text \<open>The request of a chat turn over the given message list, with the default model.\<close>

definition chat_request :: "jsval list \<Rightarrow> jsval" where
  "chat_request messages =
     JObj [ (''model'', JStr ''gpt-4o-mini''),
            (''messages'', JArr messages),
            (''max_tokens'', JNum 1000) ]"

text \<open>The request of a streamed generation, with the default model.\<close>

definition stream_request :: "string \<Rightarrow> jsval" where
  "stream_request prompt =
     JObj [ (''model'', JStr ''gpt-4o-mini''),
            (''messages'', JArr [user_message prompt]),
            (''stream'', JBool True) ]"

text \<open>The template text that an analysis type selects; an absent type is \<open>None\<close>.\<close>

definition template_of :: "string option \<Rightarrow> string" where
  "template_of a =
     (if a = Some ''conflicts'' then
        ''Analyze the following timetable data for scheduling conflicts and provide recommendations: ''
      else if a = Some ''optimization'' then
        ''Suggest optimizations for the following timetable to improve efficiency: ''
      else if a = Some ''load'' then
        ''Analyze the workload distribution in this timetable and suggest improvements: ''
      else ''Provide a general analysis of this timetable data: '')"

text \<open>
  An outcome wraps a delegated call of \<open>generateText\<close>: the same value in the same state
  when that call returned, the analysis error (and one more console line) when it threw.
\<close>

definition wraps_generateText ::
  "('e thrown + jsval) \<times> 'e world \<Rightarrow> ('e thrown + jsval) \<times> 'e world \<Rightarrow> bool" where
  "wraps_generateText outcome delegated =
     (case delegated of
        (Inr text, w1) \<Rightarrow> outcome = (Inr text, w1)
      | (Inl error, w1) \<Rightarrow>
          outcome = (Inl (Error ''Failed to analyze timetable data''),
                     console_error ''Error analyzing timetable:'' error w1))"

subsection \<open>Example inputs\<close>

text \<open>The state after loading the modules with an API key set, and nothing sent yet.\<close>

definition hello_world :: "unit world" where
  "hello_world = module_load [''OPENAI_API_KEY'' \<mapsto> ''sk-test'']"

text \<open>A completion with a single choice whose message has the given text.\<close>

definition reply :: "string \<Rightarrow> response" where
  "reply text = Completion [\<lparr> message = \<lparr> content = JStr text \<rparr> \<rparr>]"

text \<open>
  Three timetable values and what \<^verbatim>\<open>JSON.stringify\<close> does with them: an empty array is
  serialized, the value undefined gives undefined, an object that contains itself makes the
  serializer throw a TypeError.
\<close>

datatype example_data = Empty_array | Undefined_value | Cyclic_object

fun stringify_example :: "example_data \<Rightarrow> unit thrown + string option" where
  "stringify_example Empty_array = Inr (Some ''[]'')"
| "stringify_example Undefined_value = Inr None"
| "stringify_example Cyclic_object = Inl TypeError"

section \<open>Properties of the configuration module\<close>

text \<open>
  C4. When \<^verbatim>\<open>OPENAI_API_KEY\<close> is absent or the empty string, \<open>validateConfig\<close> throws an
  error whose message lists the missing variable by name; when it is a non-empty string,
  \<open>validateConfig\<close> returns without throwing. The function reads the environment and does
  nothing else: it is a function of the environment alone.
\<close>

theorem validateConfig_api_key:
  "((env ''OPENAI_API_KEY'' = None \<or> env ''OPENAI_API_KEY'' = Some [])
      \<longrightarrow> validateConfig env
            = Inl (Error (''Missing required environment variables: '' @ ''OPENAI_API_KEY'')))
   \<and> (\<forall>v. env ''OPENAI_API_KEY'' = Some v \<and> v \<noteq> [] \<longrightarrow> validateConfig env = Inr ())"
  by (auto simp: validateConfig_def requiredVars_def env_get_def)

text \<open>
  C4, at three environments: no key, an empty key, a key.
\<close>

theorem validateConfig_api_key_witness:
  "validateConfig Map.empty
     = (Inl (Error ''Missing required environment variables: OPENAI_API_KEY'') :: unit thrown + unit)
   \<and> validateConfig [''OPENAI_API_KEY'' \<mapsto> '''']
     = (Inl (Error ''Missing required environment variables: OPENAI_API_KEY'') :: unit thrown + unit)
   \<and> validateConfig [''OPENAI_API_KEY'' \<mapsto> ''sk-test'']
     = (Inr () :: unit thrown + unit)"
  using validateConfig_api_key [of "Map.empty", where ?'a = unit]
        validateConfig_api_key [of "[''OPENAI_API_KEY'' \<mapsto> '''']", where ?'a = unit]
        validateConfig_api_key [of "[''OPENAI_API_KEY'' \<mapsto> ''sk-test'']", where ?'a = unit]
  by simp

text \<open>
  C6 reads "fields equal the set values whenever the variables are set". A variable set to
  the empty string is set, and the field does not equal it: with \<^verbatim>\<open>PORT\<close> set to the empty
  string the port is the number 3000.
\<close>

theorem config_set_value_counterexample:
  "[''PORT'' \<mapsto> ''''] ''PORT'' = Some '''' \<and> port (config [''PORT'' \<mapsto> '''']) \<noteq> JStr ''''"
  by (simp add: config_def env_get_def js_or_def)

text \<open>
  C6, amended. The fields \<open>port\<close>, \<open>nodeEnv\<close> and \<open>cors.origin\<close> equal the values of
  \<^verbatim>\<open>PORT\<close>, \<^verbatim>\<open>NODE_ENV\<close> and \<^verbatim>\<open>CORS_ORIGIN\<close> when these are set to non-empty strings, and
  the api key equals the value of \<^verbatim>\<open>OPENAI_API_KEY\<close> whenever it is set. When a variable is
  unset the field takes its default: the number 3000, "development",
  "http://localhost:5173", and undefined for the api key, which has no default. Building the
  configuration cannot fail: \<open>config\<close> is a total function with no error result.
\<close>

theorem config_fields:
  "(\<forall>v. env ''PORT'' = Some v \<and> v \<noteq> [] \<longrightarrow> port (config env) = JStr v)
   \<and> (\<forall>v. env ''NODE_ENV'' = Some v \<and> v \<noteq> [] \<longrightarrow> nodeEnv (config env) = JStr v)
   \<and> (\<forall>v. env ''OPENAI_API_KEY'' = Some v \<longrightarrow> apiKey (openai (config env)) = JStr v)
   \<and> (\<forall>v. env ''CORS_ORIGIN'' = Some v \<and> v \<noteq> [] \<longrightarrow> origin (cors (config env)) = JStr v)
   \<and> (env ''PORT'' = None \<longrightarrow> port (config env) = JNum 3000)
   \<and> (env ''NODE_ENV'' = None \<longrightarrow> nodeEnv (config env) = JStr ''development'')
   \<and> (env ''OPENAI_API_KEY'' = None \<longrightarrow> apiKey (openai (config env)) = JUndefined)
   \<and> (env ''CORS_ORIGIN'' = None \<longrightarrow> origin (cors (config env)) = JStr ''http://localhost:5173'')"
  by (simp add: config_def env_get_def js_or_def)

text \<open>
  C6 amended, at an environment with all four variables set and at the empty environment.
\<close>

theorem config_fields_witness:
  "config [''PORT'' \<mapsto> ''8080'', ''NODE_ENV'' \<mapsto> ''production'',
           ''OPENAI_API_KEY'' \<mapsto> ''sk-test'', ''CORS_ORIGIN'' \<mapsto> ''https://example.org'']
     = \<lparr> port = JStr ''8080'', nodeEnv = JStr ''production'',
         openai = \<lparr> apiKey = JStr ''sk-test'' \<rparr>,
         cors = \<lparr> origin = JStr ''https://example.org'' \<rparr> \<rparr>
   \<and> config Map.empty
     = \<lparr> port = JNum 3000, nodeEnv = JStr ''development'',
         openai = \<lparr> apiKey = JUndefined \<rparr>,
         cors = \<lparr> origin = JStr ''http://localhost:5173'' \<rparr> \<rparr>"
  using config_fields [of "[''PORT'' \<mapsto> ''8080'', ''NODE_ENV'' \<mapsto> ''production'',
           ''OPENAI_API_KEY'' \<mapsto> ''sk-test'', ''CORS_ORIGIN'' \<mapsto> ''https://example.org'']"]
        config_fields [of "Map.empty"]
  by (simp add: config_def)

text \<open>
  C10. An optional variable set to the empty string is treated exactly as if it were
  unset: the field takes its default, and the whole configuration is the one obtained with
  the variable removed from the environment.
\<close>

theorem config_empty_string_is_unset:
  "(env ''PORT'' = Some [] \<longrightarrow>
      port (config env) = JNum 3000 \<and> config env = config (env(''PORT'' := None)))
   \<and> (env ''NODE_ENV'' = Some [] \<longrightarrow>
      nodeEnv (config env) = JStr ''development'' \<and> config env = config (env(''NODE_ENV'' := None)))
   \<and> (env ''CORS_ORIGIN'' = Some [] \<longrightarrow>
      origin (cors (config env)) = JStr ''http://localhost:5173''
      \<and> config env = config (env(''CORS_ORIGIN'' := None)))"
  by (simp add: config_def env_get_def js_or_def)

text \<open>
  C10, at an environment where the three optional variables are all empty.
\<close>

theorem config_empty_string_is_unset_witness:
  "port (config [''PORT'' \<mapsto> '''', ''NODE_ENV'' \<mapsto> '''', ''CORS_ORIGIN'' \<mapsto> '''']) = JNum 3000
   \<and> nodeEnv (config [''PORT'' \<mapsto> '''', ''NODE_ENV'' \<mapsto> '''', ''CORS_ORIGIN'' \<mapsto> ''''])
       = JStr ''development''
   \<and> origin (cors (config [''PORT'' \<mapsto> '''', ''NODE_ENV'' \<mapsto> '''', ''CORS_ORIGIN'' \<mapsto> '''']))
       = JStr ''http://localhost:5173''
   \<and> config [''PORT'' \<mapsto> '''', ''NODE_ENV'' \<mapsto> '''', ''CORS_ORIGIN'' \<mapsto> ''''] = config Map.empty"
  using config_empty_string_is_unset
          [of "[''PORT'' \<mapsto> '''', ''NODE_ENV'' \<mapsto> '''', ''CORS_ORIGIN'' \<mapsto> '''']"]
  by (simp add: config_def env_get_def js_or_def)

section \<open>Properties of the completion service\<close>

subsection \<open>generateText\<close>

text \<open>
  Every call hands exactly one request to the upstream call, whatever the outcome.
\<close>

lemma generateText_sent:
  "sent (snd (generateText create prompt opts w)) =
     sent w @ [JObj
       [ (''model'', js_or (get_property (case opts of None \<Rightarrow> Map.empty | Some m \<Rightarrow> m) ''model'')
                      (JStr (model (service w)))),
         (''messages'', JArr [user_message prompt]),
         (''max_tokens'', js_or (get_property (case opts of None \<Rightarrow> Map.empty | Some m \<Rightarrow> m) ''maxTokens'')
                      (JNum 1000)),
         (''temperature'', js_or (get_property (case opts of None \<Rightarrow> Map.empty | Some m \<Rightarrow> m) ''temperature'')
                      (JNum 0.7)) ]]"
  by (simp add: generateText_def await_create_def console_error_def user_message_def Let_def
           split: sum.splits)

lemma generateText_sent_default:
  "sent (snd (generateText create prompt None w)) = sent w @ [default_request (model (service w)) prompt]"
  by (simp add: generateText_sent default_request_def get_property_def js_or_def)

lemma generateText_returns:
  "create (JObj
       [ (''model'', js_or (get_property (case opts of None \<Rightarrow> Map.empty | Some m \<Rightarrow> m) ''model'')
                      (JStr (model (service w)))),
         (''messages'', JArr [user_message prompt]),
         (''max_tokens'', js_or (get_property (case opts of None \<Rightarrow> Map.empty | Some m \<Rightarrow> m) ''maxTokens'')
                      (JNum 1000)),
         (''temperature'', js_or (get_property (case opts of None \<Rightarrow> Map.empty | Some m \<Rightarrow> m) ''temperature'')
                      (JNum 0.7)) ]) = Inr (Completion (c # cs))
   \<Longrightarrow> fst (generateText create prompt opts w) = Inr (content (message c))"
  by (simp add: generateText_def await_create_def user_message_def Let_def)

text \<open>
  C1 says that a key of the options that is set is used, and that only unset keys fall back
  to the defaults. The code takes the default whenever the value is falsy: with
  \<^verbatim>\<open>{ temperature: 0 }\<close> the key is set, and the request carries the temperature 0.7.
\<close>

theorem generateText_temperature_zero:
  "get_property [''temperature'' \<mapsto> JNum 0] ''temperature'' = JNum 0
   \<and> sent (snd (generateText (\<lambda>r. Inr (reply ''hi'')) ''hello''
                  (Some [''temperature'' \<mapsto> JNum 0]) hello_world))
       = [JObj [ (''model'', JStr ''gpt-4o-mini''),
                 (''messages'', JArr [JObj [(''role'', JStr ''user''), (''content'', JStr ''hello'')]]),
                 (''max_tokens'', JNum 1000),
                 (''temperature'', JNum 0.7) ]]"
  by (simp add: generateText_sent user_message_def get_property_def js_or_def hello_world_def
        module_load_def constructor_def)




subsection \<open>generateTextStream\<close>

lemma generateTextStream_sent:
  "sent (snd (generateTextStream create prompt w)) =
     sent w @ [JObj [ (''model'', JStr (model (service w))),
                      (''messages'', JArr [user_message prompt]),
                      (''stream'', JBool True) ]]"
  by (simp add: generateTextStream_def await_create_def console_error_def user_message_def Let_def
           split: sum.splits)

lemma generateTextStream_outcome:
  "generateTextStream create prompt w =
     (case create (JObj [ (''model'', JStr (model (service w))),
                          (''messages'', JArr [user_message prompt]),
                          (''stream'', JBool True) ]) of
        Inl e \<Rightarrow>
          (Inl (Error ''Failed to generate streaming response''),
           w\<lparr> sent := sent w @ [JObj [ (''model'', JStr (model (service w))),
                          (''messages'', JArr [user_message prompt]),
                          (''stream'', JBool True) ]],
              console := console w @ [(''Error generating streaming text with OpenAI:'', Upstream e)] \<rparr>)
      | Inr stream \<Rightarrow>
          (Inr stream,
           w\<lparr> sent := sent w @ [JObj [ (''model'', JStr (model (service w))),
                          (''messages'', JArr [user_message prompt]),
                          (''stream'', JBool True) ]] \<rparr>))"
  by (simp add: generateTextStream_def await_create_def console_error_def user_message_def Let_def
           split: sum.splits)

text \<open>
  C7. With the default model in the service, \<open>generateTextStream\<close> sends one request with
  exactly the fields \<^verbatim>\<open>model\<close>, \<^verbatim>\<open>messages\<close> and \<^verbatim>\<open>stream\<close>: streaming enabled, the same model
  and the same single user message as the request of \<open>generateText\<close> without overrides, and
  neither \<^verbatim>\<open>max_tokens\<close> nor \<^verbatim>\<open>temperature\<close>. When the upstream call fails, the caller
  receives the error "Failed to generate streaming response"; otherwise the stream itself.
\<close>

theorem generateTextStream_request_shape:
  assumes "model (service w) = ''gpt-4o-mini''"
  shows "sent (snd (generateTextStream create prompt w)) = sent w @ [stream_request prompt]
         \<and> map fst (properties (stream_request prompt)) = [''model'', ''messages'', ''stream'']
         \<and> map_of (properties (stream_request prompt)) ''stream'' = Some (JBool True)
         \<and> map_of (properties (stream_request prompt)) ''model''
             = map_of (properties (default_request ''gpt-4o-mini'' prompt)) ''model''
         \<and> map_of (properties (stream_request prompt)) ''messages''
             = map_of (properties (default_request ''gpt-4o-mini'' prompt)) ''messages''
         \<and> (\<forall>e. create (stream_request prompt) = Inl e \<longrightarrow>
               generateTextStream create prompt w =
                 (Inl (Error ''Failed to generate streaming response''),
                  w\<lparr> sent := sent w @ [stream_request prompt],
                     console := console w
                       @ [(''Error generating streaming text with OpenAI:'', Upstream e)] \<rparr>))
         \<and> (\<forall>stream. create (stream_request prompt) = Inr stream \<longrightarrow>
               fst (generateTextStream create prompt w) = Inr stream)"
proof -
  have request: "JObj [ (''model'', JStr (model (service w))),
                        (''messages'', JArr [user_message prompt]),
                        (''stream'', JBool True) ] = stream_request prompt"
    using assms by (simp add: stream_request_def)
  have "sent (snd (generateTextStream create prompt w)) = sent w @ [stream_request prompt]"
    by (simp only: generateTextStream_sent request)
  moreover have "map fst (properties (stream_request prompt)) = [''model'', ''messages'', ''stream'']"
    by (simp add: stream_request_def properties_def)
  moreover have "map_of (properties (stream_request prompt)) ''stream'' = Some (JBool True)"
    by (simp add: stream_request_def properties_def)
  moreover have "map_of (properties (stream_request prompt)) ''model''
                   = map_of (properties (default_request ''gpt-4o-mini'' prompt)) ''model''"
    by (simp add: stream_request_def default_request_def properties_def)
  moreover have "map_of (properties (stream_request prompt)) ''messages''
                   = map_of (properties (default_request ''gpt-4o-mini'' prompt)) ''messages''"
    by (simp add: stream_request_def default_request_def properties_def)
  moreover have "\<forall>e. create (stream_request prompt) = Inl e \<longrightarrow>
               generateTextStream create prompt w =
                 (Inl (Error ''Failed to generate streaming response''),
                  w\<lparr> sent := sent w @ [stream_request prompt],
                     console := console w
                       @ [(''Error generating streaming text with OpenAI:'', Upstream e)] \<rparr>)"
    by (simp add: generateTextStream_outcome [of create prompt w] request)
  moreover have "\<forall>stream. create (stream_request prompt) = Inr stream \<longrightarrow>
               fst (generateTextStream create prompt w) = Inr stream"
    by (simp add: generateTextStream_outcome [of create prompt w] request)
  ultimately show ?thesis by (simp only: simp_thms)
qed

text \<open>
  C7, for a failing upstream call and for one that gives a stream of two fragments.
\<close>

theorem generateTextStream_request_shape_witness:
  "model (service hello_world) = ''gpt-4o-mini''
   \<and> sent (snd (generateTextStream (\<lambda>r. Inl ()) ''hello'' hello_world))
       = [JObj [ (''model'', JStr ''gpt-4o-mini''),
                 (''messages'', JArr [JObj [(''role'', JStr ''user''), (''content'', JStr ''hello'')]]),
                 (''stream'', JBool True) ]]
   \<and> fst (generateTextStream (\<lambda>r. Inl ()) ''hello'' hello_world)
       = Inl (Error ''Failed to generate streaming response'')
   \<and> fst (generateTextStream (\<lambda>r. Inr (Stream [''he'', ''llo''])) ''hello'' hello_world)
       = Inr (Stream [''he'', ''llo''])"
proof -
  have m: "model (service hello_world) = ''gpt-4o-mini''"
    by (simp add: hello_world_def module_load_def constructor_def)
  have s: "sent hello_world = []"
    by (simp add: hello_world_def module_load_def)
  show ?thesis
    using m s generateTextStream_request_shape [OF m, of "\<lambda>r. Inl ()" "''hello''"]
      generateTextStream_request_shape [OF m, of "\<lambda>r. Inr (Stream [''he'', ''llo''])" "''hello''"]
    by (simp add: stream_request_def user_message_def)
qed

subsection \<open>chat\<close>

lemma chat_sent:
  "sent (snd (chat create h msg w)) =
     sent w @ [JObj [ (''model'', JStr (model (service w))),
                      (''messages'', JArr ((case h of None \<Rightarrow> [] | Some xs \<Rightarrow> xs) @ [user_message msg])),
                      (''max_tokens'', JNum 1000) ]]"
  by (simp add: chat_def await_create_def console_error_def user_message_def Let_def
           split: sum.splits)

lemma chat_returns:
  "create (JObj [ (''model'', JStr (model (service w))),
                  (''messages'', JArr ((case h of None \<Rightarrow> [] | Some xs \<Rightarrow> xs) @ [user_message msg])),
                  (''max_tokens'', JNum 1000) ]) = Inr (Completion (c # cs))
   \<Longrightarrow> fst (chat create h msg w) = Inr (content (message c))"
  by (simp add: chat_def await_create_def user_message_def Let_def)

text \<open>
  C3. With the default model in the service, \<open>chat\<close> sends one request whose message list is
  the history followed by one new user message, with model "gpt-4o-mini", \<^verbatim>\<open>max_tokens\<close> 1000
  and no other field (so no temperature), and it returns the content of the first choice of
  the completion.
\<close>

theorem chat_request_shape:
  assumes "model (service w) = ''gpt-4o-mini''"
  shows "sent (snd (chat create (Some history) msg w))
           = sent w @ [chat_request (history @ [user_message msg])]
         \<and> map fst (properties (chat_request (history @ [user_message msg])))
           = [''model'', ''messages'', ''max_tokens'']
         \<and> (\<forall>c cs. create (chat_request (history @ [user_message msg])) = Inr (Completion (c # cs))
              \<longrightarrow> fst (chat create (Some history) msg w) = Inr (content (message c)))"
  using assms chat_returns [of create w "Some history" msg]
  by (simp add: chat_sent chat_request_def properties_def)

text \<open>
  C3, on the example of the specification: a history of one message, then "how are you?".
\<close>

theorem chat_request_shape_witness:
  "model (service hello_world) = ''gpt-4o-mini''
   \<and> sent (snd (chat (\<lambda>r. Inr (reply ''fine'')) (Some [user_message ''hi'']) ''how are you?'' hello_world))
       = [JObj [ (''model'', JStr ''gpt-4o-mini''),
                 (''messages'', JArr [JObj [(''role'', JStr ''user''), (''content'', JStr ''hi'')],
                                      JObj [(''role'', JStr ''user''), (''content'', JStr ''how are you?'')]]),
                 (''max_tokens'', JNum 1000) ]]
   \<and> fst (chat (\<lambda>r. Inr (reply ''fine'')) (Some [user_message ''hi'']) ''how are you?'' hello_world)
       = Inr (JStr ''fine'')"
proof -
  have m: "model (service hello_world) = ''gpt-4o-mini''"
    by (simp add: hello_world_def module_load_def constructor_def)
  have s: "sent hello_world = []"
    by (simp add: hello_world_def module_load_def)
  show ?thesis
    using m s chat_request_shape [OF m, of "\<lambda>r. Inr (reply ''fine'')" "[user_message ''hi'']" "''how are you?''"]
    by (simp add: chat_request_def user_message_def reply_def)
qed

text \<open>
  C9. A call of \<open>chat\<close> with the history omitted behaves exactly as the call with the empty
  history: the message list of the request is the single new user message.
\<close>

theorem chat_history_omitted:
  "chat create None msg w = chat create (Some []) msg w
   \<and> sent (snd (chat create None msg w))
       = sent w @ [JObj [ (''model'', JStr (model (service w))),
                          (''messages'', JArr [JObj [(''role'', JStr ''user''), (''content'', JStr msg)]]),
                          (''max_tokens'', JNum 1000) ]]"
  by (simp add: chat_sent user_message_def) (simp add: chat_def)

subsection \<open>analyzeTimetable\<close>

lemma analyzeTimetable_serialized:
  "js d = Inr s \<Longrightarrow>
   analyzeTimetable js create d a w =
     (case generateText create (template_of a @ interpolate s) None w of
        (Inl error, w1) \<Rightarrow>
          (Inl (Error ''Failed to analyze timetable data''),
           console_error ''Error analyzing timetable:'' error w1)
      | (Inr text, w1) \<Rightarrow> (Inr text, w1))"
  by (cases a) (simp_all add: analyzeTimetable_def template_of_def Let_def)

lemma analyzeTimetable_failed_serialization:
  "js d = Inl e \<Longrightarrow>
   analyzeTimetable js create d a w =
     (Inl (Error ''Failed to analyze timetable data''),
      console_error ''Error analyzing timetable:'' e w)"
  by (simp add: analyzeTimetable_def Let_def)

lemma wraps_generateText_sent:
  "wraps_generateText outcome delegated \<Longrightarrow> sent (snd outcome) = sent (snd delegated)"
  by (auto simp: wraps_generateText_def console_error_def split: prod.splits sum.splits)

lemma analyzeTimetable_wraps:
  "js d = Inr s \<Longrightarrow>
   wraps_generateText (analyzeTimetable js create d a w)
     (generateText create (template_of a @ interpolate s) None w)"
  by (simp add: analyzeTimetable_serialized wraps_generateText_def split: prod.splits sum.splits)

text \<open>
  C2 reads "for every timetableData value ... delegates that prompt to generateText". The
  serialization is part of the guarded block: for a timetable on which \<^verbatim>\<open>JSON.stringify\<close>
  throws, such as an object that contains itself, no prompt is built and no request is sent;
  the caller receives the analysis error.
\<close>

theorem analyzeTimetable_cyclic_counterexample:
  "stringify_example Cyclic_object = Inl TypeError
   \<and> analyzeTimetable stringify_example (\<lambda>r. Inr (reply ''No conflicts.'')) Cyclic_object
        (Some ''conflicts'') hello_world
     = (Inl (Error ''Failed to analyze timetable data''),
        hello_world\<lparr> console := [(''Error analyzing timetable:'', TypeError)] \<rparr>)
   \<and> sent (snd (analyzeTimetable stringify_example (\<lambda>r. Inr (reply ''No conflicts.''))
                  Cyclic_object (Some ''conflicts'') hello_world)) = []"
  by (simp add: analyzeTimetable_failed_serialization console_error_def hello_world_def
        module_load_def)

text \<open>
  C2, amended. For every timetable on which the serialization does not throw,
  \<open>analyzeTimetable\<close> appends the embedded text (the serialized text, or the word undefined when
  the serialization gives undefined) to the template selected by exact match on the analysis
  type, hands the prompt to \<open>generateText\<close> with no options, and returns what that call
  returns (its failure comes back as the analysis error). The request sent is the one of
  \<open>generateText\<close> without overrides. The template for "conflicts" contains
  "scheduling conflicts"; "optimization" and "load" have their own templates; every other
  type, and an absent one, selects the general analysis.
\<close>

theorem analyzeTimetable_delegates:
  assumes "JSON_stringify timetableData = Inr serialized"
  shows "wraps_generateText
           (analyzeTimetable JSON_stringify create timetableData analysisType w)
           (generateText create
              (template_of analysisType
                 @ (case serialized of Some text \<Rightarrow> text | None \<Rightarrow> ''undefined''))
              None w)
         \<and> sent (snd (analyzeTimetable JSON_stringify create timetableData analysisType w))
             = sent w @ [default_request (model (service w))
                 (template_of analysisType
                    @ (case serialized of Some text \<Rightarrow> text | None \<Rightarrow> ''undefined''))]
         \<and> template_of (Some ''conflicts'')
             = ''Analyze the following timetable data for '' @ ''scheduling conflicts''
               @ '' and provide recommendations: ''
         \<and> template_of (Some ''optimization'')
             = ''Suggest optimizations for the following timetable to improve efficiency: ''
         \<and> template_of (Some ''load'')
             = ''Analyze the workload distribution in this timetable and suggest improvements: ''
         \<and> (analysisType \<noteq> Some ''conflicts'' \<and> analysisType \<noteq> Some ''optimization''
              \<and> analysisType \<noteq> Some ''load''
            \<longrightarrow> template_of analysisType
                  = ''Provide a '' @ ''general analysis'' @ '' of this timetable data: '')"
proof -
  have i: "interpolate serialized = (case serialized of Some text \<Rightarrow> text | None \<Rightarrow> ''undefined'')"
    by (simp add: interpolate_def split: option.splits)
  have w: "wraps_generateText
           (analyzeTimetable JSON_stringify create timetableData analysisType w)
           (generateText create
              (template_of analysisType
                 @ (case serialized of Some text \<Rightarrow> text | None \<Rightarrow> ''undefined''))
              None w)"
    using analyzeTimetable_wraps [where js = JSON_stringify and d = timetableData
            and create = create and a = analysisType and w = w, OF assms]
    by (simp only: i)
  have s: "sent (snd (analyzeTimetable JSON_stringify create timetableData analysisType w))
             = sent w @ [default_request (model (service w))
                 (template_of analysisType
                    @ (case serialized of Some text \<Rightarrow> text | None \<Rightarrow> ''undefined''))]"
    using wraps_generateText_sent [OF w] by (simp only: generateText_sent_default)
  have c: "template_of (Some ''conflicts'')
             = ''Analyze the following timetable data for '' @ ''scheduling conflicts''
               @ '' and provide recommendations: ''"
    by (simp add: template_of_def)
  have opt: "template_of (Some ''optimization'')
             = ''Suggest optimizations for the following timetable to improve efficiency: ''"
    by (simp add: template_of_def)
  have l: "template_of (Some ''load'')
             = ''Analyze the workload distribution in this timetable and suggest improvements: ''"
    by (simp add: template_of_def)
  have g: "analysisType \<noteq> Some ''conflicts'' \<and> analysisType \<noteq> Some ''optimization''
              \<and> analysisType \<noteq> Some ''load''
            \<longrightarrow> template_of analysisType
                  = ''Provide a '' @ ''general analysis'' @ '' of this timetable data: ''"
    by (simp add: template_of_def)
  from w s c opt l g show ?thesis by (simp only: simp_thms)
qed

text \<open>
  C2 amended, for an empty timetable with the types "conflicts", "nonsense" and absent, and
  for the timetable undefined.
\<close>

theorem analyzeTimetable_delegates_witness:
  "stringify_example Empty_array = Inr (Some ''[]'')
   \<and> stringify_example Undefined_value = Inr None
   \<and> fst (analyzeTimetable stringify_example (\<lambda>r. Inr (reply ''No conflicts.'')) Empty_array
            (Some ''conflicts'') hello_world)
       = Inr (JStr ''No conflicts.'')
   \<and> sent (snd (analyzeTimetable stringify_example (\<lambda>r. Inr (reply ''No conflicts.'')) Empty_array
            (Some ''conflicts'') hello_world))
       = [default_request ''gpt-4o-mini''
            ''Analyze the following timetable data for scheduling conflicts and provide recommendations: []'']
   \<and> sent (snd (analyzeTimetable stringify_example (\<lambda>r. Inr (reply ''No conflicts.'')) Empty_array
            (Some ''nonsense'') hello_world))
       = [default_request ''gpt-4o-mini'' ''Provide a general analysis of this timetable data: []'']
   \<and> sent (snd (analyzeTimetable stringify_example (\<lambda>r. Inr (reply ''No conflicts.'')) Empty_array
            None hello_world))
       = [default_request ''gpt-4o-mini'' ''Provide a general analysis of this timetable data: []'']
   \<and> sent (snd (analyzeTimetable stringify_example (\<lambda>r. Inr (reply ''No conflicts.''))
            Undefined_value None hello_world))
       = [default_request ''gpt-4o-mini''
            ''Provide a general analysis of this timetable data: undefined'']"
proof -
  have j: "stringify_example Empty_array = Inr (Some ''[]'')"
    by simp
  have u: "stringify_example Undefined_value = Inr None"
    by simp
  have m: "model (service hello_world) = ''gpt-4o-mini''" "sent hello_world = []"
    by (simp_all add: hello_world_def module_load_def constructor_def)
  have g: "generateText (\<lambda>r. Inr (reply ''No conflicts.'')) p None hello_world
             = (Inr (JStr ''No conflicts.''), hello_world\<lparr> sent := [default_request ''gpt-4o-mini'' p] \<rparr>)"
    for p
    using m by (simp add: generateText_def await_create_def default_request_def user_message_def
          reply_def get_property_def js_or_def Let_def)
  show ?thesis
    using j u m
      analyzeTimetable_delegates [where JSON_stringify = stringify_example
          and timetableData = Empty_array
          and create = "\<lambda>r. Inr (reply ''No conflicts.'')" and analysisType = "Some ''conflicts''"
          and w = hello_world, OF j]
      analyzeTimetable_delegates [where JSON_stringify = stringify_example
          and timetableData = Empty_array
          and create = "\<lambda>r. Inr (reply ''No conflicts.'')" and analysisType = "Some ''nonsense''"
          and w = hello_world, OF j]
      analyzeTimetable_delegates [where JSON_stringify = stringify_example
          and timetableData = Empty_array
          and create = "\<lambda>r. Inr (reply ''No conflicts.'')" and analysisType = None
          and w = hello_world, OF j]
      analyzeTimetable_delegates [where JSON_stringify = stringify_example
          and timetableData = Undefined_value
          and create = "\<lambda>r. Inr (reply ''No conflicts.'')" and analysisType = None
          and w = hello_world, OF u]
    by (simp add: g wraps_generateText_def)
qed

subsection \<open>The service object and the configuration are left as they were\<close>

lemma generateText_frame:
  "service (snd (generateText create prompt opts w)) = service w
   \<and> cfg (snd (generateText create prompt opts w)) = cfg w"
  by (simp add: generateText_def await_create_def console_error_def Let_def split: sum.splits)

lemma generateText_frame_result:
  "generateText create prompt opts w = (r, w1) \<Longrightarrow> service w1 = service w \<and> cfg w1 = cfg w"
  using generateText_frame [of create prompt opts w] by simp

lemma generateTextStream_frame:
  "service (snd (generateTextStream create prompt w)) = service w
   \<and> cfg (snd (generateTextStream create prompt w)) = cfg w"
  by (simp add: generateTextStream_def await_create_def console_error_def Let_def split: sum.splits)

lemma chat_frame:
  "service (snd (chat create h msg w)) = service w
   \<and> cfg (snd (chat create h msg w)) = cfg w"
  by (simp add: chat_def await_create_def console_error_def Let_def split: sum.splits)

lemma analyzeTimetable_frame:
  "service (snd (analyzeTimetable js create d a w)) = service w
   \<and> cfg (snd (analyzeTimetable js create d a w)) = cfg w"
proof (cases "js d")
  case (Inl e)
  then show ?thesis
    by (simp add: analyzeTimetable_failed_serialization console_error_def)
next
  case (Inr s)
  then show ?thesis
    by (auto simp: analyzeTimetable_serialized console_error_def
             split: sum.splits prod.splits dest: generateText_frame_result)
qed

text \<open>
  C8. After a call of any of the four methods, with any arguments and any behaviour of the
  upstream call, the service object (its client handle and its model) and the configuration
  are what they were before the call.
\<close>

theorem service_state_unchanged:
  "service (snd (generateText create prompt opts w)) = service w
   \<and> cfg (snd (generateText create prompt opts w)) = cfg w
   \<and> service (snd (generateTextStream create prompt w)) = service w
   \<and> cfg (snd (generateTextStream create prompt w)) = cfg w
   \<and> service (snd (chat create history msg w)) = service w
   \<and> cfg (snd (chat create history msg w)) = cfg w
   \<and> service (snd (analyzeTimetable JSON_stringify create timetableData analysisType w)) = service w
   \<and> cfg (snd (analyzeTimetable JSON_stringify create timetableData analysisType w)) = cfg w"
  by (simp only: generateText_frame generateTextStream_frame chat_frame analyzeTimetable_frame simp_thms)

end
